theory Spec2Isabelle
  imports Main "HOL-Library.Word"
begin

section \<open>Strings of the page\<close>

text \<open>
  The component in \<^verbatim>\<open>src/app/page.tsx\<close> is written in TypeScript. A string there is a
  sequence of UTF-16 code units, and a regular expression without the \<^verbatim>\<open>u\<close> flag
  matches code unit by code unit. A string is therefore a list of code units, each a
  natural number below 65536; \<open>str\<close> embeds an ASCII literal.
\<close>

type_synonym code_unit = nat
type_synonym js_string = "code_unit list"

definition str :: "string \<Rightarrow> js_string" where
  "str cs = map of_char cs"

text \<open>The string literals of the page that are not ASCII, as their code units.\<close>

definition DEFAULT_OVERLAY_TEXT :: js_string where
  "DEFAULT_OVERLAY_TEXT =
    [0x417, 0x434, 0x440, 0x430, 0x432, 0x441, 0x442, 0x432, 0x443, 0x439, 0x442, 0x435,
     0x21, 0x20, 0x413, 0x43E, 0x442, 0x43E, 0x432, 0x20, 0x437, 0x430, 0x43F, 0x438,
     0x441, 0x430, 0x442, 0x44C, 0x20, 0x432, 0x430, 0x448, 0x435, 0x20, 0x432, 0x438,
     0x434, 0x435, 0x43E, 0x2E]"

definition DEFAULT_PROJECT_TITLE :: js_string where
  "DEFAULT_PROJECT_TITLE =
    [0x41C, 0x43E, 0x439, 0x20, 0x43F, 0x440, 0x43E, 0x435, 0x43A, 0x442]"

definition MSG_PREVIEW_AUTOPLAY :: js_string where
  "MSG_PREVIEW_AUTOPLAY =
    [0x41D, 0x435, 0x20, 0x443, 0x434, 0x430, 0x43B, 0x43E, 0x441, 0x44C, 0x20, 0x430,
     0x432, 0x442, 0x43E, 0x43C, 0x430, 0x442, 0x438, 0x447, 0x435, 0x441, 0x43A, 0x438,
     0x20, 0x432, 0x43E, 0x441, 0x43F, 0x440, 0x43E, 0x438, 0x437, 0x432, 0x435, 0x441,
     0x442, 0x438, 0x20, 0x43F, 0x440, 0x435, 0x434, 0x432, 0x430, 0x440, 0x438, 0x442,
     0x435, 0x43B, 0x44C, 0x43D, 0x44B, 0x439, 0x20, 0x43F, 0x440, 0x43E, 0x441, 0x43C,
     0x43E, 0x442, 0x440, 0x2E]"

definition MSG_CAMERA_FALLBACK :: js_string where
  "MSG_CAMERA_FALLBACK =
    [0x41D, 0x435, 0x20, 0x443, 0x434, 0x430, 0x43B, 0x43E, 0x441, 0x44C, 0x20, 0x43F,
     0x43E, 0x43B, 0x443, 0x447, 0x438, 0x442, 0x44C, 0x20, 0x434, 0x43E, 0x441, 0x442,
     0x443, 0x43F, 0x20, 0x43A, 0x20, 0x43A, 0x430, 0x43C, 0x435, 0x440, 0x435, 0x2E]"

definition MSG_SCREEN_FALLBACK :: js_string where
  "MSG_SCREEN_FALLBACK =
    [0x41D, 0x435, 0x20, 0x443, 0x434, 0x430, 0x43B, 0x43E, 0x441, 0x44C, 0x20, 0x43F,
     0x43E, 0x43B, 0x443, 0x447, 0x438, 0x442, 0x44C, 0x20, 0x434, 0x43E, 0x441, 0x442,
     0x443, 0x43F, 0x20, 0x43A, 0x20, 0x44D, 0x43A, 0x440, 0x430, 0x43D, 0x443, 0x2E]"

definition MSG_WEBM_UNSUPPORTED :: js_string where
  "MSG_WEBM_UNSUPPORTED =
    [0x412, 0x430, 0x448, 0x20, 0x431, 0x440, 0x430, 0x443, 0x437, 0x435, 0x440, 0x20,
     0x43D, 0x435, 0x20, 0x43F, 0x43E, 0x434, 0x434, 0x435, 0x440, 0x436, 0x438, 0x432,
     0x430, 0x435, 0x442, 0x20, 0x437, 0x430, 0x43F, 0x438, 0x441, 0x44C, 0x20, 0x432,
     0x438, 0x434, 0x435, 0x43E, 0x20, 0x57, 0x65, 0x62, 0x4D, 0x2E]"

definition MSG_NO_ACTIVE_SOURCE :: js_string where
  "MSG_NO_ACTIVE_SOURCE =
    [0x41D, 0x435, 0x442, 0x20, 0x430, 0x43A, 0x442, 0x438, 0x432, 0x43D, 0x43E, 0x433,
     0x43E, 0x20, 0x438, 0x441, 0x442, 0x43E, 0x447, 0x43D, 0x438, 0x43A, 0x430, 0x20,
     0x434, 0x43B, 0x44F, 0x20, 0x437, 0x430, 0x43F, 0x438, 0x441, 0x438, 0x2E, 0x20,
     0x412, 0x43A, 0x43B, 0x44E, 0x447, 0x438, 0x442, 0x435, 0x20, 0x441, 0x442, 0x443,
     0x434, 0x438, 0x44E, 0x2E]"

definition MSG_START_FAILED :: js_string where
  "MSG_START_FAILED =
    [0x41D, 0x435, 0x20, 0x443, 0x434, 0x430, 0x43B, 0x43E, 0x441, 0x44C, 0x20, 0x43D,
     0x430, 0x447, 0x430, 0x442, 0x44C, 0x20, 0x437, 0x430, 0x43F, 0x438, 0x441, 0x44C,
     0x2E]"

section \<open>Export file name\<close>

text \<open>
  \<^verbatim>\<open>projectTitle.replace(/[^a-zA-Z0-9\-_]+/g, "_") || "video"\<close> followed by
  \<^verbatim>\<open>.webm\<close> (\<^verbatim>\<open>downloadRecording\<close>). The character class is negated and carries
  the quantifier \<^verbatim>\<open>+\<close>: one match is a maximal run of code units outside the class,
  and each match is replaced by one underscore. \<open>allowed\<close> is the class without its
  negation.
\<close>

definition allowed :: "code_unit \<Rightarrow> bool" where
  "allowed c =
    ((0x61 \<le> c \<and> c \<le> 0x7A) \<or> (0x41 \<le> c \<and> c \<le> 0x5A) \<or> (0x30 \<le> c \<and> c \<le> 0x39)
      \<or> c = 0x2D \<or> c = 0x5F)"

definition disallowed :: "code_unit \<Rightarrow> bool" where
  "disallowed c = (\<not> allowed c)"

function replace_disallowed :: "js_string \<Rightarrow> js_string" where
  "replace_disallowed [] = []"
| "replace_disallowed (c # cs) =
    (if allowed c then c # replace_disallowed cs
     else 0x5F # replace_disallowed (dropWhile disallowed cs))"
  by pat_completeness auto
termination
  by (relation "measure length") (auto simp: less_Suc_eq_le length_dropWhile_le)

definition export_base_name :: "js_string \<Rightarrow> js_string" where
  "export_base_name title =
    (let sanitized = replace_disallowed title
     in if sanitized = [] then str ''video'' else sanitized)"

definition fileName :: "js_string \<Rightarrow> js_string" where
  "fileName title = export_base_name title @ str ''.webm''"

text \<open>
  The reading of the specification: every code unit outside the class becomes an
  underscore of its own.
\<close>

definition replace_each_disallowed :: "js_string \<Rightarrow> js_string" where
  "replace_each_disallowed title = map (\<lambda>c. if allowed c then c else 0x5F) title"

definition starts_allowed :: "js_string \<Rightarrow> bool" where
  "starts_allowed r = (case r of [] \<Rightarrow> True | c # _ \<Rightarrow> allowed c)"

section \<open>Platform objects\<close>

text \<open>
  The browser objects the component holds, by what the component observes of them.
  A \<^verbatim>\<open>MediaStream\<close> is the list of its tracks, a \<^verbatim>\<open>Blob\<close> its bytes and type, a
  \<^verbatim>\<open>MediaRecorder\<close> its stream, options and state together with \<^verbatim>\<open>chunks\<close>, the
  array that its two handlers of \<^verbatim>\<open>startRecording\<close> close over. A thrown value is an
  \<^verbatim>\<open>Error\<close> with a message, or something that is not an \<^verbatim>\<open>Error\<close>.
\<close>

datatype RecorderState = idle | recording | paused

datatype CaptureSource = camera | screen

definition COUNTDOWN_SECONDS :: int where
  "COUNTDOWN_SECONDS = 3"

datatype track_kind = VideoTrack | AudioTrack

datatype MediaStreamTrack = Track track_kind nat

type_synonym MediaStream = "MediaStreamTrack list"

datatype js_error = ErrorObject js_string | NotAnError

record Blob =
  blob_bytes :: "8 word list"
  blob_type :: js_string

datatype RecordingState = rec_inactive | rec_recording | rec_paused

record MediaRecorder =
  rec_stream :: MediaStream
  mimeType :: js_string
  videoBitsPerSecond :: nat
  rec_state :: RecordingState
  chunks :: "Blob list"

record HTMLVideoElement =
  srcObject :: "MediaStream option"

text \<open>
  The callback of an interval: the one of \<^verbatim>\<open>startTimer\<close>, or the one of
  \<^verbatim>\<open>beginCountdown\<close> with the current value of its variable \<^verbatim>\<open>remaining\<close>.
\<close>

datatype interval_callback = ElapsedTick | CountdownTick int

text \<open>
  What the platform answers: \<^verbatim>\<open>MediaRecorder.isTypeSupported\<close>, and whether the
  constructor or \<^verbatim>\<open>start()\<close> throws (both calls stand inside the \<^verbatim>\<open>try\<close> of
  \<^verbatim>\<open>startRecording\<close>).
\<close>

record platform =
  isTypeSupported :: "js_string \<Rightarrow> bool"
  constructor_throws :: "js_error option"
  start_throws :: "js_error option"

text \<open>
  The outcomes of the three requests of \<^verbatim>\<open>prepareStudio\<close>:
  \<^verbatim>\<open>getUserMedia({video: {width: 1280, height: 720}, audio: mic})\<close> as a function of
  \<^verbatim>\<open>mic\<close>, \<^verbatim>\<open>getDisplayMedia({video: true, audio: false})\<close> and
  \<^verbatim>\<open>getUserMedia({audio: true})\<close>.
\<close>

record mediaDevices =
  getUserMedia_camera :: "bool \<Rightarrow> js_error + MediaStream"
  getDisplayMedia :: "js_error + MediaStream"
  getUserMedia_microphone :: "js_error + MediaStream"

section \<open>The session\<close>

text \<open>
  One record holds the state of \<^verbatim>\<open>Home\<close>: the values of its \<^verbatim>\<open>useState\<close> hooks,
  the contents of its four refs, and the part of the browser it acts on (the armed
  intervals, the recorders it constructed, the registry of object URLs, the tracks it
  stopped, the console and the downloads it triggered). A handler is a function from
  the state before to the state after; it reads the state of the render it was bound
  in, which is the current one for a handler bound to a control.
\<close>

record session =
  recorderState :: RecorderState
  recordedUrl :: "nat option"
  error :: "js_string option"
  isStudioReady :: bool
  countdown :: "int option"
  elapsedSeconds :: int
  overlayText :: js_string
  projectTitle :: js_string
  captureSource :: CaptureSource
  includeMicrophone :: bool
  showOverlay :: bool
  videoRef :: "HTMLVideoElement option"
  recorderRef :: "nat option"
  streamRef :: "MediaStream option"
  timerRef :: "nat option"
  intervals :: "nat \<Rightarrow> interval_callback option"
  nextInterval :: nat
  recorders :: "nat \<Rightarrow> MediaRecorder option"
  nextRecorder :: nat
  objectURLs :: "nat \<Rightarrow> Blob option"
  nextObjectURL :: nat
  stoppedTracks :: "MediaStreamTrack list"
  console :: "js_error list"
  downloads :: "(nat \<times> js_string) list"

definition initial :: session where
  "initial =
    \<lparr> recorderState = idle, recordedUrl = None, error = None, isStudioReady = False,
      countdown = None, elapsedSeconds = 0, overlayText = DEFAULT_OVERLAY_TEXT,
      projectTitle = DEFAULT_PROJECT_TITLE, captureSource = camera,
      includeMicrophone = True, showOverlay = True,
      videoRef = Some \<lparr> srcObject = None \<rparr>, recorderRef = None, streamRef = None,
      timerRef = None, intervals = (\<lambda>_. None), nextInterval = 0,
      recorders = (\<lambda>_. None), nextRecorder = 0, objectURLs = (\<lambda>_. None),
      nextObjectURL = 0, stoppedTracks = [], console = [], downloads = [] \<rparr>"

section \<open>Browser calls\<close>

definition setInterval :: "interval_callback \<Rightarrow> session \<Rightarrow> nat \<times> session" where
  "setInterval cb s =
    (nextInterval s,
     s\<lparr> intervals := (intervals s)(nextInterval s \<mapsto> cb),
        nextInterval := Suc (nextInterval s) \<rparr>)"

definition clearInterval :: "nat \<Rightarrow> session \<Rightarrow> session" where
  "clearInterval t s = s\<lparr> intervals := (intervals s)(t := None) \<rparr>"

definition createObjectURL :: "Blob \<Rightarrow> session \<Rightarrow> nat \<times> session" where
  "createObjectURL b s =
    (nextObjectURL s,
     s\<lparr> objectURLs := (objectURLs s)(nextObjectURL s \<mapsto> b),
        nextObjectURL := Suc (nextObjectURL s) \<rparr>)"

definition revokeObjectURL :: "nat \<Rightarrow> session \<Rightarrow> session" where
  "revokeObjectURL u s = s\<lparr> objectURLs := (objectURLs s)(u := None) \<rparr>"

definition getAudioTracks :: "MediaStream \<Rightarrow> MediaStreamTrack list" where
  "getAudioTracks stream = filter (\<lambda>t. case t of Track k _ \<Rightarrow> k = AudioTrack) stream"

definition addTrack :: "MediaStream \<Rightarrow> MediaStreamTrack \<Rightarrow> MediaStream" where
  "addTrack stream t = (if List.member stream t then stream else stream @ [t])"

text \<open>
  A call of \<^verbatim>\<open>start\<close>, \<^verbatim>\<open>pause\<close>, \<^verbatim>\<open>resume\<close> or \<^verbatim>\<open>stop\<close> on a recorder
  leaves its new state in the recorder.
\<close>

definition set_rec_state :: "nat \<Rightarrow> RecordingState \<Rightarrow> session \<Rightarrow> session" where
  "set_rec_state r st s =
    (case recorders s r of
       None \<Rightarrow> s
     | Some m \<Rightarrow> s\<lparr> recorders := (recorders s)(r \<mapsto> m\<lparr> rec_state := st \<rparr>) \<rparr>)"

section \<open>Helpers of the component\<close>

definition resetTimer :: "session \<Rightarrow> session" where
  "resetTimer s =
    (let s1 = (case timerRef s of
                 Some t \<Rightarrow> (clearInterval t s)\<lparr> timerRef := None \<rparr>
               | None \<Rightarrow> s)
     in s1\<lparr> elapsedSeconds := 0 \<rparr>)"

definition teardownStream :: "session \<Rightarrow> session" where
  "teardownStream s =
    (let s1 = (case streamRef s of
                 Some stream \<Rightarrow> s\<lparr> stoppedTracks := stoppedTracks s @ stream \<rparr>
               | None \<Rightarrow> s)
     in s1\<lparr> streamRef := None \<rparr>)"

text \<open>
  The cleanup of the effect: it closes over the \<^verbatim>\<open>recordedUrl\<close> of the render that
  installed it.
\<close>

definition effectCleanup :: "nat option \<Rightarrow> session \<Rightarrow> session" where
  "effectCleanup captured s =
    (let s1 = teardownStream s;
         s2 = (case captured of Some u \<Rightarrow> revokeObjectURL u s1 | None \<Rightarrow> s1)
     in resetTimer s2)"

definition attachStreamToVideo :: "MediaStream \<Rightarrow> session \<Rightarrow> session" where
  "attachStreamToVideo stream s =
    (case videoRef s of
       Some v \<Rightarrow> s\<lparr> videoRef := Some (v\<lparr> srcObject := Some stream \<rparr>) \<rparr>
     | None \<Rightarrow> s)"

text \<open>The rejection of \<^verbatim>\<open>play()\<close>, which arrives after \<^verbatim>\<open>attachStreamToVideo\<close> returned.\<close>

definition playRejected :: "session \<Rightarrow> session" where
  "playRejected s = s\<lparr> error := Some MSG_PREVIEW_AUTOPLAY \<rparr>"

section \<open>Acquiring the stream\<close>

text \<open>
  \<^verbatim>\<open>prepareStudio\<close> is asynchronous. It runs to its first \<^verbatim>\<open>await\<close> when called
  (\<open>prepareStudio_begin\<close>) and continues when the requests have settled
  (\<open>prepareStudio_settle\<close>); between the two it neither reads nor writes the session.
  \<open>acquire\<close> is the body of the \<^verbatim>\<open>try\<close> from the declaration of \<^verbatim>\<open>stream\<close> on: the
  stream, or the value thrown. The failure of the microphone request is caught inside
  and written to the console.
\<close>

definition prepareStudio_begin :: "session \<Rightarrow> session" where
  "prepareStudio_begin s = teardownStream (s\<lparr> error := None, isStudioReady := False \<rparr>)"

definition acquire ::
  "mediaDevices \<Rightarrow> CaptureSource \<Rightarrow> bool \<Rightarrow> session \<Rightarrow> js_error + (MediaStream \<times> session)" where
  "acquire d source mic s =
    (if source = camera then
       (case getUserMedia_camera d mic of
          Inl err \<Rightarrow> Inl err
        | Inr stream \<Rightarrow> Inr (stream, s))
     else
       (case getDisplayMedia d of
          Inl err \<Rightarrow> Inl err
        | Inr screenStream \<Rightarrow>
            if mic then
              (case getUserMedia_microphone d of
                 Inr micStream \<Rightarrow>
                   Inr (foldl addTrack screenStream (getAudioTracks micStream), s)
               | Inl micErr \<Rightarrow> Inr (screenStream, s\<lparr> console := console s @ [micErr] \<rparr>))
            else Inr (screenStream, s)))"

definition acquisition_message :: "CaptureSource \<Rightarrow> js_error \<Rightarrow> js_string" where
  "acquisition_message source err =
    (let fallback = (if source = camera then MSG_CAMERA_FALLBACK else MSG_SCREEN_FALLBACK)
     in case err of
          ErrorObject m \<Rightarrow> if m \<noteq> [] then m else fallback
        | NotAnError \<Rightarrow> fallback)"

definition prepareStudio_settle ::
  "mediaDevices \<Rightarrow> CaptureSource \<Rightarrow> bool \<Rightarrow> session \<Rightarrow> session" where
  "prepareStudio_settle d source mic s =
    (case acquire d source mic s of
       Inr (stream, s1) \<Rightarrow>
         (attachStreamToVideo stream (s1\<lparr> streamRef := Some stream \<rparr>))\<lparr> isStudioReady := True \<rparr>
     | Inl err \<Rightarrow> teardownStream (s\<lparr> error := Some (acquisition_message source err) \<rparr>))"

definition prepareStudio :: "mediaDevices \<Rightarrow> CaptureSource \<Rightarrow> bool \<Rightarrow> session \<Rightarrow> session" where
  "prepareStudio d source mic s = prepareStudio_settle d source mic (prepareStudio_begin s)"

text \<open>
  The three handlers that call \<^verbatim>\<open>prepareStudio\<close>, up to its first \<^verbatim>\<open>await\<close>.
\<close>

definition handleEnableStudio :: "session \<Rightarrow> session" where
  "handleEnableStudio s = prepareStudio_begin s"

definition handleSelectSource :: "CaptureSource \<Rightarrow> session \<Rightarrow> session" where
  "handleSelectSource source s =
    (let s1 = s\<lparr> captureSource := source \<rparr>
     in if isStudioReady s then prepareStudio_begin s1 else s1)"

definition handleToggleMicrophone :: "bool \<Rightarrow> session \<Rightarrow> session" where
  "handleToggleMicrophone nextValue s =
    (let s1 = s\<lparr> includeMicrophone := nextValue \<rparr>
     in if isStudioReady s then prepareStudio_begin s1 else s1)"

section \<open>Recording\<close>

definition supportedTypes :: "js_string list" where
  "supportedTypes =
    [str ''video/webm;codecs=vp9,opus'', str ''video/webm;codecs=vp8,opus'',
     str ''video/webm'']"

definition createRecorder ::
  "platform \<Rightarrow> MediaStream \<Rightarrow> session \<Rightarrow> js_error + (nat \<times> session)" where
  "createRecorder p stream s =
    (case find (isTypeSupported p) supportedTypes of
       None \<Rightarrow> Inl (ErrorObject MSG_WEBM_UNSUPPORTED)
     | Some mime \<Rightarrow>
         (case constructor_throws p of
            Some err \<Rightarrow> Inl err
          | None \<Rightarrow>
              Inr (nextRecorder s,
                   s\<lparr> recorders := (recorders s)(nextRecorder s \<mapsto>
                          \<lparr> rec_stream = stream, mimeType = mime,
                            videoBitsPerSecond = 4000000, rec_state = rec_inactive,
                            chunks = [] \<rparr>),
                      nextRecorder := Suc (nextRecorder s) \<rparr>)))"

definition startTimer :: "session \<Rightarrow> session" where
  "startTimer s =
    (let (t, s1) = setInterval ElapsedTick (resetTimer s)
     in s1\<lparr> timerRef := Some t \<rparr>)"

definition start_message :: "js_error \<Rightarrow> js_string" where
  "start_message err = (case err of ErrorObject m \<Rightarrow> m | NotAnError \<Rightarrow> MSG_START_FAILED)"

definition startRecording :: "platform \<Rightarrow> session \<Rightarrow> session" where
  "startRecording p s =
    (case streamRef s of
       None \<Rightarrow> s\<lparr> error := Some MSG_NO_ACTIVE_SOURCE \<rparr>
     | Some stream \<Rightarrow>
         (let s1 = (case recordedUrl s of
                      Some u \<Rightarrow> (revokeObjectURL u s)\<lparr> recordedUrl := None \<rparr>
                    | None \<Rightarrow> s)
          in case createRecorder p stream s1 of
               Inl err \<Rightarrow> s1\<lparr> error := Some (start_message err) \<rparr>
             | Inr (r, s2) \<Rightarrow>
                 (case start_throws p of
                    Some err \<Rightarrow> s2\<lparr> error := Some (start_message err) \<rparr>
                  | None \<Rightarrow>
                      startTimer
                        ((set_rec_state r rec_recording s2)
                           \<lparr> recorderRef := Some r, recorderState := recording \<rparr>))))"

text \<open>
  The two handlers that \<^verbatim>\<open>startRecording\<close> installs on the recorder it constructed.
\<close>

definition ondataavailable :: "nat \<Rightarrow> Blob \<Rightarrow> session \<Rightarrow> session" where
  "ondataavailable r data s =
    (case recorders s r of
       None \<Rightarrow> s
     | Some m \<Rightarrow>
         if length (blob_bytes data) > 0
         then s\<lparr> recorders := (recorders s)(r \<mapsto> m\<lparr> chunks := chunks m @ [data] \<rparr>) \<rparr>
         else s)"

definition new_Blob :: "Blob list \<Rightarrow> js_string \<Rightarrow> Blob" where
  "new_Blob parts ty = \<lparr> blob_bytes = concat (map blob_bytes parts), blob_type = ty \<rparr>"

definition onstop :: "nat \<Rightarrow> session \<Rightarrow> session" where
  "onstop r s =
    (case recorders s r of
       None \<Rightarrow> s
     | Some m \<Rightarrow>
         (let blob = new_Blob (chunks m) (mimeType m);
              (url, s1) = createObjectURL blob s
          in resetTimer (s1\<lparr> recordedUrl := Some url, recorderState := idle \<rparr>)))"

definition stopRecording :: "session \<Rightarrow> session" where
  "stopRecording s =
    (case recorderRef s of
       None \<Rightarrow> s
     | Some r \<Rightarrow>
         if recorderState s \<noteq> idle
         then (teardownStream ((set_rec_state r rec_inactive s)\<lparr> recorderRef := None \<rparr>))
                \<lparr> isStudioReady := False, countdown := None \<rparr>
         else s)"

definition pauseRecording :: "session \<Rightarrow> session" where
  "pauseRecording s =
    (case recorderRef s of
       None \<Rightarrow> s
     | Some r \<Rightarrow>
         if recorderState s = recording
         then (let s1 = (set_rec_state r rec_paused s)\<lparr> recorderState := paused \<rparr>
               in case timerRef s1 of
                    Some t \<Rightarrow> (clearInterval t s1)\<lparr> timerRef := None \<rparr>
                  | None \<Rightarrow> s1)
         else s)"

definition resumeRecording :: "session \<Rightarrow> session" where
  "resumeRecording s =
    (case recorderRef s of
       None \<Rightarrow> s
     | Some r \<Rightarrow>
         if recorderState s = paused
         then startTimer ((set_rec_state r rec_recording s)\<lparr> recorderState := recording \<rparr>)
         else s)"

section \<open>Countdown and export\<close>

definition beginCountdown :: "session \<Rightarrow> session" where
  "beginCountdown s =
    (if countdown s \<noteq> None \<or> recorderState s \<noteq> idle then s
     else snd (setInterval (CountdownTick COUNTDOWN_SECONDS)
                 (s\<lparr> countdown := Some COUNTDOWN_SECONDS \<rparr>)))"

text \<open>
  An interval fires: the callback of \<^verbatim>\<open>startTimer\<close> adds one second, the callback of
  \<^verbatim>\<open>beginCountdown\<close> decrements \<^verbatim>\<open>remaining\<close> and, at zero, clears its own interval
  and the countdown and calls \<^verbatim>\<open>startRecording\<close>. A cleared interval does not fire.
  The \<^verbatim>\<open>startRecording\<close> that the callback calls is the one of the render in which
  the countdown began; what it closes over of the state is \<^verbatim>\<open>recordedUrl\<close>, which no
  operation of the page changes while the countdown runs (part of
  \<open>no_encoder_change\<close> below).
\<close>

definition intervalFires :: "platform \<Rightarrow> nat \<Rightarrow> session \<Rightarrow> session" where
  "intervalFires p t s =
    (case intervals s t of
       None \<Rightarrow> s
     | Some ElapsedTick \<Rightarrow> s\<lparr> elapsedSeconds := elapsedSeconds s + 1 \<rparr>
     | Some (CountdownTick remaining) \<Rightarrow>
         (let remaining' = remaining - 1
          in if remaining' \<le> 0
             then startRecording p ((clearInterval t s)\<lparr> countdown := None \<rparr>)
             else s\<lparr> intervals := (intervals s)(t \<mapsto> CountdownTick remaining'),
                     countdown := Some remaining' \<rparr>))"

definition downloadRecording :: "session \<Rightarrow> session" where
  "downloadRecording s =
    (case recordedUrl s of
       None \<Rightarrow> s
     | Some url \<Rightarrow> s\<lparr> downloads := downloads s @ [(url, fileName (projectTitle s))] \<rparr>)"

section \<open>Events\<close>

text \<open>
  The operations the page exposes through its controls, the continuation of an
  acquisition, and the callbacks of the browser. \<open>step\<close> runs one event, \<open>run\<close> a
  sequence of them from left to right. The browser fires \<^verbatim>\<open>stop\<close> on a recorder that it
  has made inactive, after \<^verbatim>\<open>stop()\<close> was called on it or after every track of its
  stream has ended. React runs the cleanup of the effect when \<^verbatim>\<open>recordedUrl\<close> differs
  from the one of the previous render, with that previous value, and when the page is
  left.
\<close>

datatype event =
    EnableStudio
  | SelectSource CaptureSource
  | ToggleMicrophone bool
  | AcquisitionSettles mediaDevices CaptureSource bool
  | BeginCountdown
  | PauseRecording
  | ResumeRecording
  | StopRecording
  | DownloadRecording
  | EditOverlayText js_string
  | EditProjectTitle js_string
  | ToggleOverlay bool
  | IntervalFires nat
  | DataAvailable nat Blob
  | RecorderStopped nat
  | PlayRejected
  | EffectCleanup "nat option"

fun step :: "platform \<Rightarrow> event \<Rightarrow> session \<Rightarrow> session" where
  "step p EnableStudio s = handleEnableStudio s"
| "step p (SelectSource source) s = handleSelectSource source s"
| "step p (ToggleMicrophone nextValue) s = handleToggleMicrophone nextValue s"
| "step p (AcquisitionSettles d source mic) s = prepareStudio_settle d source mic s"
| "step p BeginCountdown s = beginCountdown s"
| "step p PauseRecording s = pauseRecording s"
| "step p ResumeRecording s = resumeRecording s"
| "step p StopRecording s = stopRecording s"
| "step p DownloadRecording s = downloadRecording s"
| "step p (EditOverlayText v) s = s\<lparr> overlayText := v \<rparr>"
| "step p (EditProjectTitle v) s = s\<lparr> projectTitle := v \<rparr>"
| "step p (ToggleOverlay v) s = s\<lparr> showOverlay := v \<rparr>"
| "step p (IntervalFires t) s = intervalFires p t s"
| "step p (DataAvailable r data) s = ondataavailable r data s"
| "step p (RecorderStopped r) s = onstop r (set_rec_state r rec_inactive s)"
| "step p PlayRejected s = playRejected s"
| "step p (EffectCleanup captured) s = effectCleanup captured s"

fun run :: "platform \<Rightarrow> event list \<Rightarrow> session \<Rightarrow> session" where
  "run p [] s = s"
| "run p (e # es) s = run p es (step p e s)"

text \<open>
  The events that are operations of the page, as opposed to callbacks of the browser.
\<close>

fun exposed_operation :: "event \<Rightarrow> bool" where
  "exposed_operation (IntervalFires _) = False"
| "exposed_operation (DataAvailable _ _) = False"
| "exposed_operation (RecorderStopped _) = False"
| "exposed_operation PlayRejected = False"
| "exposed_operation (EffectCleanup _) = False"
| "exposed_operation _ = True"

text \<open>The fragments that a sequence of events delivers to recorder \<open>r\<close>, in order.\<close>

fun emitted :: "nat \<Rightarrow> event list \<Rightarrow> Blob list" where
  "emitted r [] = []"
| "emitted r (DataAvailable r' data # es) =
    (if r' = r then data # emitted r es else emitted r es)"
| "emitted r (_ # es) = emitted r es"

definition nonempty :: "Blob \<Rightarrow> bool" where
  "nonempty data = (length (blob_bytes data) > 0)"

text \<open>Recorder \<open>r\<close> was constructed and its \<^verbatim>\<open>chunks\<close> array holds \<open>cs\<close>.\<close>

definition collecting :: "nat \<Rightarrow> Blob list \<Rightarrow> session \<Rightarrow> bool" where
  "collecting r cs s =
    (r < nextRecorder s \<and> (case recorders s r of None \<Rightarrow> False | Some m \<Rightarrow> chunks m = cs))"

text \<open>
  A countdown is in progress: its interval \<open>t\<close> is armed with \<open>n\<close> in \<^verbatim>\<open>remaining\<close>,
  the page shows \<open>n\<close>, and no recording is in progress.
\<close>

definition counting_down :: "nat \<Rightarrow> int \<Rightarrow> session \<Rightarrow> bool" where
  "counting_down t n s =
    (intervals s t = Some (CountdownTick n) \<and> countdown s = Some n \<and> recorderState s = idle)"

section \<open>Sample inputs\<close>

text \<open>
  A browser that records plain WebM only, one that records none of the three types,
  a camera that delivers one video track and, when asked, one audio track, and a
  screen share whose microphone request is denied.
\<close>

definition webm_platform :: platform where
  "webm_platform =
    \<lparr> isTypeSupported = (\<lambda>t. t = str ''video/webm''), constructor_throws = None,
      start_throws = None \<rparr>"

definition no_webm_platform :: platform where
  "no_webm_platform =
    \<lparr> isTypeSupported = (\<lambda>t. False), constructor_throws = None, start_throws = None \<rparr>"

definition camera_devices :: mediaDevices where
  "camera_devices =
    \<lparr> getUserMedia_camera =
        (\<lambda>mic. Inr (if mic then [Track VideoTrack 0, Track AudioTrack 1]
                     else [Track VideoTrack 0])),
      getDisplayMedia = Inl NotAnError,
      getUserMedia_microphone = Inl NotAnError \<rparr>"

definition screen_devices :: mediaDevices where
  "screen_devices =
    \<lparr> getUserMedia_camera = (\<lambda>mic. Inl NotAnError),
      getDisplayMedia = Inr [Track VideoTrack 7],
      getUserMedia_microphone = Inl (ErrorObject (str ''Permission denied'')) \<rparr>"

text \<open>
  The page is opened, the studio enabled with the camera, the countdown begun and
  left to run its three ticks: a recording is in progress on recorder 0 with the
  elapsed-time interval 1.
\<close>

definition first_recording :: "event list" where
  "first_recording =
    [EnableStudio, AcquisitionSettles camera_devices camera True, BeginCountdown,
     IntervalFires 0, IntervalFires 0, IntervalFires 0]"

text \<open>
  The fields that a countdown and a recording depend on are the same in both states.
\<close>

definition untouched :: "session \<Rightarrow> session \<Rightarrow> bool" where
  "untouched s s' =
    (intervals s' = intervals s \<and> countdown s' = countdown s
      \<and> recorderState s' = recorderState s \<and> recorderRef s' = recorderRef s
      \<and> recorders s' = recorders s \<and> nextRecorder s' = nextRecorder s
      \<and> recordedUrl s' = recordedUrl s)"

text \<open>Stop, pause and resume change nothing in \<open>s\<close>.\<close>

definition controls_inert :: "session \<Rightarrow> bool" where
  "controls_inert s = (stopRecording s = s \<and> pauseRecording s = s \<and> resumeRecording s = s)"

text \<open>
  Since \<open>s0\<close> no recorder was constructed or changed, and the recorder reference and
  the handle of the finished artifact are the ones of \<open>s0\<close>.
\<close>

definition no_encoder_change :: "session \<Rightarrow> session \<Rightarrow> bool" where
  "no_encoder_change s0 s =
    (recorderRef s = recorderRef s0 \<and> recorders s = recorders s0
      \<and> nextRecorder s = nextRecorder s0 \<and> recordedUrl s = recordedUrl s0)"

text \<open>No recorder was ever constructed and no artifact was ever finished.\<close>

definition never_recorded :: "session \<Rightarrow> bool" where
  "never_recorded s = (recorders s = (\<lambda>_. None) \<and> recordedUrl s = None)"

text \<open>The recorder that \<^verbatim>\<open>recorderRef\<close> holds, if any, was constructed.\<close>

definition attached :: "session \<Rightarrow> bool" where
  "attached s = (case recorderRef s of None \<Rightarrow> True | Some r \<Rightarrow> recorders s r \<noteq> None)"

section \<open>Export: the base name of the file\<close>

lemma replace_disallowed_allowed_run:
  "list_all allowed a \<Longrightarrow> replace_disallowed (a @ r) = a @ replace_disallowed r"
  by (induction a) auto

lemma dropWhile_disallowed_run:
  "list_all disallowed b \<Longrightarrow> starts_allowed r \<Longrightarrow> dropWhile disallowed (b @ r) = r"
  by (induction b) (auto simp: starts_allowed_def disallowed_def split: list.splits)

lemma replace_disallowed_disallowed_run:
  assumes "b \<noteq> []" and "list_all disallowed b" and "starts_allowed r"
  shows "replace_disallowed (b @ r) = 0x5F # replace_disallowed r"
proof (cases b)
  case Nil
  with assms(1) show ?thesis by simp
next
  case (Cons c cs)
  with assms(2) have c: "\<not> allowed c" and cs: "list_all disallowed cs"
    by (simp_all add: disallowed_def)
  from dropWhile_disallowed_run[OF cs assms(3)] c Cons show ?thesis by simp
qed

lemma replace_disallowed_empty: "replace_disallowed t = [] \<longleftrightarrow> t = []"
  by (cases t) auto

text \<open>
  C1, as the code has it. An allowed code unit is kept. A maximal run of code units
  outside \<^verbatim>\<open>[A-Za-z0-9_-]\<close> (one that is not empty and is followed by the end of the
  title or by an allowed code unit) becomes a single underscore, however long it is.
  The sanitized title is empty only for the empty title, so the default base name
  \<^verbatim>\<open>video\<close> is used for the empty title and for no other. The title
  \<^verbatim>\<open>My Project!! 2024\<close> gives \<^verbatim>\<open>My_Project_2024\<close>, the title \<^verbatim>\<open>???\<close> gives
  \<^verbatim>\<open>_\<close>, and the file name is the base name followed by \<^verbatim>\<open>.webm\<close>.
\<close>

theorem fileName_replaces_runs:
  assumes "list_all allowed a" and "b \<noteq> []" and "list_all disallowed b"
    and "starts_allowed r"
  shows "replace_disallowed (a @ b @ r) = a @ 0x5F # replace_disallowed r
    \<and> replace_disallowed a = a
    \<and> export_base_name t = (if t = [] then str ''video'' else replace_disallowed t)
    \<and> fileName t = export_base_name t @ str ''.webm''
    \<and> export_base_name (str ''My Project!! 2024'') = str ''My_Project_2024''
    \<and> export_base_name (str ''???'') = str ''_''"
proof -
  have "replace_disallowed (a @ b @ r) = a @ replace_disallowed (b @ r)"
    by (rule replace_disallowed_allowed_run[OF assms(1)])
  also have "replace_disallowed (b @ r) = 0x5F # replace_disallowed r"
    by (rule replace_disallowed_disallowed_run[OF assms(2-4)])
  finally have runs: "replace_disallowed (a @ b @ r) = a @ 0x5F # replace_disallowed r" .
  have kept: "replace_disallowed a = a"
    using replace_disallowed_allowed_run[OF assms(1), of "[]"] by simp
  have base: "export_base_name t = (if t = [] then str ''video'' else replace_disallowed t)"
    by (simp add: export_base_name_def Let_def replace_disallowed_empty)
  have name: "fileName t = export_base_name t @ str ''.webm''"
    by (simp add: fileName_def)
  have ex1: "export_base_name (str ''My Project!! 2024'') = str ''My_Project_2024''"
    by (simp add: export_base_name_def str_def allowed_def disallowed_def)
  have ex2: "export_base_name (str ''???'') = str ''_''"
    by (simp add: export_base_name_def str_def allowed_def disallowed_def)
  from runs kept base name ex1 ex2 show ?thesis by (intro conjI)
qed

text \<open>
  The theorem at the title \<^verbatim>\<open>ab?!cd\<close>: \<^verbatim>\<open>ab\<close> is kept, the run \<^verbatim>\<open>?!\<close> becomes one
  underscore, and the file is \<^verbatim>\<open>ab_cd.webm\<close>.
\<close>

theorem fileName_replaces_runs_witness:
  "list_all allowed (str ''ab'') \<and> str ''?!'' \<noteq> [] \<and> list_all disallowed (str ''?!'')
    \<and> starts_allowed (str ''cd'')
    \<and> replace_disallowed (str ''ab'' @ str ''?!'' @ str ''cd'')
        = str ''ab'' @ 0x5F # replace_disallowed (str ''cd'')
    \<and> fileName (str ''ab?!cd'') = str ''ab_cd.webm''"
proof -
  have h1: "list_all allowed (str ''ab'')" by (simp add: str_def allowed_def)
  have h2: "str ''?!'' \<noteq> []" by (simp add: str_def)
  have h3: "list_all disallowed (str ''?!'')" by (simp add: str_def allowed_def disallowed_def)
  have h4: "starts_allowed (str ''cd'')" by (simp add: str_def allowed_def starts_allowed_def)
  note th = fileName_replaces_runs[OF h1 h2 h3 h4, of "str ''ab?!cd''"]
  from th have c1: "replace_disallowed (str ''ab'' @ str ''?!'' @ str ''cd'')
      = str ''ab'' @ 0x5F # replace_disallowed (str ''cd'')"
    by (rule conjunct1)
  from th have "fileName (str ''ab?!cd'') = export_base_name (str ''ab?!cd'') @ str ''.webm''"
    by blast
  then have c2: "fileName (str ''ab?!cd'') = str ''ab_cd.webm''"
    by (simp add: export_base_name_def str_def allowed_def disallowed_def)
  from h1 h2 h3 h4 c1 c2 show ?thesis by (intro conjI)
qed

text \<open>
  C1 as the specification states it fails: for \<^verbatim>\<open>My Project!! 2024\<close> the base name is
  not \<^verbatim>\<open>My_Project__2024\<close>, for \<^verbatim>\<open>???\<close> it is not the default \<^verbatim>\<open>video\<close>, and the
  code does not replace code unit by code unit (the title \<^verbatim>\<open>a!!b\<close>).
\<close>

theorem fileName_not_one_per_character:
  "export_base_name (str ''My Project!! 2024'') \<noteq> str ''My_Project__2024''
    \<and> export_base_name (str ''???'') \<noteq> str ''video''
    \<and> replace_disallowed (str ''a!!b'') \<noteq> replace_each_disallowed (str ''a!!b'')"
  by (simp add: export_base_name_def replace_each_disallowed_def str_def allowed_def
      disallowed_def)

section \<open>Starting a recording that cannot start\<close>

lemma find_None_list_all: "list_all (\<lambda>x. \<not> P x) xs \<Longrightarrow> find P xs = None"
  by (induction xs) auto

text \<open>
  C7. When \<^verbatim>\<open>startRecording\<close> is called while \<^verbatim>\<open>streamRef\<close> holds no stream, it
  sets the error message that names the missing source and changes nothing else:
  \<^verbatim>\<open>recorderState\<close> keeps its value (it stays \<^verbatim>\<open>idle\<close>), no recorder is constructed
  or referenced, and no interval is armed.
\<close>

theorem startRecording_no_stream:
  assumes "streamRef s = None"
  shows "startRecording p s = s\<lparr> error := Some MSG_NO_ACTIVE_SOURCE \<rparr>
    \<and> error (startRecording p s) = Some MSG_NO_ACTIVE_SOURCE
    \<and> recorderState (startRecording p s) = recorderState s
    \<and> recorderRef (startRecording p s) = recorderRef s
    \<and> recorders (startRecording p s) = recorders s
    \<and> nextRecorder (startRecording p s) = nextRecorder s
    \<and> timerRef (startRecording p s) = timerRef s
    \<and> intervals (startRecording p s) = intervals s
    \<and> nextInterval (startRecording p s) = nextInterval s"
  using assms by (simp add: startRecording_def)

text \<open>
  The theorem on the page as it is opened, where no stream was acquired yet: the state
  stays \<^verbatim>\<open>idle\<close> and the count of constructed recorders stays zero.
\<close>

theorem startRecording_no_stream_witness:
  "streamRef initial = None
    \<and> startRecording webm_platform initial = initial\<lparr> error := Some MSG_NO_ACTIVE_SOURCE \<rparr>
    \<and> recorderState (startRecording webm_platform initial) = idle
    \<and> nextRecorder (startRecording webm_platform initial) = 0"
proof -
  have h: "streamRef initial = None" by (simp add: initial_def)
  note th = startRecording_no_stream[OF h, of webm_platform]
  from th have c1: "startRecording webm_platform initial
      = initial\<lparr> error := Some MSG_NO_ACTIVE_SOURCE \<rparr>"
    by (rule conjunct1)
  from th have "recorderState (startRecording webm_platform initial) = recorderState initial"
    by blast
  then have c2: "recorderState (startRecording webm_platform initial) = idle"
    by (simp add: initial_def)
  from th have "nextRecorder (startRecording webm_platform initial) = nextRecorder initial"
    by blast
  then have c3: "nextRecorder (startRecording webm_platform initial) = 0"
    by (simp add: initial_def)
  from h c1 c2 c3 show ?thesis by (intro conjI)
qed

lemmas handler_defs =
  handleEnableStudio_def prepareStudio_begin_def prepareStudio_settle_def acquire_def
  teardownStream_def attachStreamToVideo_def beginCountdown_def setInterval_def
  intervalFires_def clearInterval_def startRecording_def createRecorder_def
  set_rec_state_def startTimer_def resetTimer_def pauseRecording_def resumeRecording_def
  stopRecording_def onstop_def ondataavailable_def createObjectURL_def revokeObjectURL_def
  playRejected_def new_Blob_def

lemmas sample_defs =
  webm_platform_def no_webm_platform_def camera_devices_def screen_devices_def
  first_recording_def initial_def COUNTDOWN_SECONDS_def supportedTypes_def str_def

text \<open>
  What the handler does in any state when no type is supported: the release of a
  finished artifact stands before the construction of the recorder.
\<close>

lemma startRecording_unsupported_handler:
  assumes "streamRef s = Some stream"
    and "find (isTypeSupported p) supportedTypes = None"
  shows "startRecording p s =
      (case recordedUrl s of
         None \<Rightarrow> s\<lparr> error := Some MSG_WEBM_UNSUPPORTED \<rparr>
       | Some u \<Rightarrow> s\<lparr> objectURLs := (objectURLs s)(u := None), recordedUrl := None,
                      error := Some MSG_WEBM_UNSUPPORTED \<rparr>)"
  using assms
  by (simp add: startRecording_def createRecorder_def start_message_def revokeObjectURL_def
      split: option.splits)

text \<open>
  On a browser that supports none of the three types no recorder is ever constructed,
  so no \<^verbatim>\<open>onstop\<close> handler ever runs and \<^verbatim>\<open>recordedUrl\<close> stays null, whatever
  happens on the page.
\<close>

lemma never_recorded_step:
  assumes "find (isTypeSupported p) supportedTypes = None" and "never_recorded s"
  shows "never_recorded (step p e s)"
  using assms
  by (cases e)
    (auto simp: never_recorded_def handler_defs handleSelectSource_def
      handleToggleMicrophone_def downloadRecording_def effectCleanup_def Let_def
      start_message_def
      split: option.splits sum.splits interval_callback.splits prod.splits if_splits)

lemma never_recorded_run:
  "find (isTypeSupported p) supportedTypes = None \<Longrightarrow> never_recorded s \<Longrightarrow>
    never_recorded (run p es s)"
  by (induction es arbitrary: s) (simp_all add: never_recorded_step)

lemma never_recorded_initial: "never_recorded initial"
  by (simp add: never_recorded_def initial_def)

text \<open>
  C2. The page is opened on a browser that supports none of the three types, and any
  sequence \<open>es\<close> of events has run. When \<^verbatim>\<open>startRecording\<close> is then called with a
  stream in \<^verbatim>\<open>streamRef\<close>, it sets the error message of \<^verbatim>\<open>createRecorder\<close> and
  changes no other field: \<^verbatim>\<open>recorderState\<close>, the handle of the finished artifact and
  the registry of object URLs, the elapsed counter, the recorder reference and the
  recorders, the timer and its intervals, the stream, the studio flag and the
  countdown are as before. No artifact is released, since on such a browser none was
  ever finished: \<^verbatim>\<open>recordedUrl\<close> is null before and after, so the effect that depends
  on \<^verbatim>\<open>recordedUrl\<close> does not run again either.
\<close>

theorem startRecording_unsupported_type:
  assumes "list_all (\<lambda>t. \<not> isTypeSupported p t) supportedTypes"
    and "streamRef (run p es initial) = Some stream"
  shows "let s = run p es initial
     in startRecording p s = s\<lparr> error := Some MSG_WEBM_UNSUPPORTED \<rparr>
      \<and> error (startRecording p s) = Some MSG_WEBM_UNSUPPORTED
      \<and> recorderState (startRecording p s) = recorderState s
      \<and> recordedUrl (startRecording p s) = recordedUrl s
      \<and> objectURLs (startRecording p s) = objectURLs s
      \<and> elapsedSeconds (startRecording p s) = elapsedSeconds s
      \<and> recorderRef (startRecording p s) = recorderRef s
      \<and> recorders (startRecording p s) = recorders s
      \<and> nextRecorder (startRecording p s) = nextRecorder s
      \<and> timerRef (startRecording p s) = timerRef s
      \<and> intervals (startRecording p s) = intervals s
      \<and> streamRef (startRecording p s) = streamRef s
      \<and> stoppedTracks (startRecording p s) = stoppedTracks s
      \<and> isStudioReady (startRecording p s) = isStudioReady s
      \<and> countdown (startRecording p s) = countdown s
      \<and> recordedUrl s = None"
proof -
  let ?s = "run p es initial"
  have f: "find (isTypeSupported p) supportedTypes = None"
    by (rule find_None_list_all[OF assms(1)])
  from never_recorded_run[OF f never_recorded_initial, of es]
  have u: "recordedUrl ?s = None" by (simp add: never_recorded_def)
  from startRecording_unsupported_handler[OF assms(2) f] u
  have e: "startRecording p ?s = ?s\<lparr> error := Some MSG_WEBM_UNSUPPORTED \<rparr>" by simp
  show ?thesis unfolding Let_def e using u by simp
qed

text \<open>
  The theorem in the studio with the camera enabled, on a browser that records no
  WebM: only the error message changes.
\<close>

theorem startRecording_unsupported_type_witness:
  "list_all (\<lambda>t. \<not> isTypeSupported no_webm_platform t) supportedTypes
    \<and> streamRef (run no_webm_platform
        [EnableStudio, AcquisitionSettles camera_devices camera True] initial)
      = Some [Track VideoTrack 0, Track AudioTrack 1]
    \<and> startRecording no_webm_platform
        (run no_webm_platform
          [EnableStudio, AcquisitionSettles camera_devices camera True] initial)
      = (run no_webm_platform
          [EnableStudio, AcquisitionSettles camera_devices camera True] initial)
        \<lparr> error := Some MSG_WEBM_UNSUPPORTED \<rparr>
    \<and> recorderState (startRecording no_webm_platform
        (run no_webm_platform
          [EnableStudio, AcquisitionSettles camera_devices camera True] initial)) = idle
    \<and> streamRef (startRecording no_webm_platform
        (run no_webm_platform
          [EnableStudio, AcquisitionSettles camera_devices camera True] initial))
      = Some [Track VideoTrack 0, Track AudioTrack 1]"
proof -
  let ?s = "run no_webm_platform
    [EnableStudio, AcquisitionSettles camera_devices camera True] initial"
  have h1: "list_all (\<lambda>t. \<not> isTypeSupported no_webm_platform t) supportedTypes"
    by (simp add: no_webm_platform_def supportedTypes_def)
  have h2: "streamRef ?s = Some [Track VideoTrack 0, Track AudioTrack 1]"
    by (simp add: handler_defs sample_defs)
  have i: "recorderState ?s = idle"
    by (simp add: handler_defs sample_defs)
  note th = startRecording_unsupported_type[OF h1 h2, unfolded Let_def]
  from th have c1: "startRecording no_webm_platform ?s = ?s\<lparr> error := Some MSG_WEBM_UNSUPPORTED \<rparr>"
    by (rule conjunct1)
  from th have "recorderState (startRecording no_webm_platform ?s) = recorderState ?s"
    by blast
  then have c2: "recorderState (startRecording no_webm_platform ?s) = idle"
    unfolding i .
  from th have "streamRef (startRecording no_webm_platform ?s) = streamRef ?s"
    by blast
  then have c3: "streamRef (startRecording no_webm_platform ?s)
      = Some [Track VideoTrack 0, Track AudioTrack 1]"
    unfolding h2 .
  from h1 h2 c1 c2 c3 show ?thesis by (intro conjI)
qed

section \<open>Beginning a countdown that cannot begin\<close>

text \<open>
  C9. \<^verbatim>\<open>beginCountdown\<close>, called while a countdown is shown or while
  \<^verbatim>\<open>recorderState\<close> is not \<^verbatim>\<open>idle\<close>, returns the session as it was: no interval is
  armed, no error is set, and no field changes.
\<close>

theorem beginCountdown_noop:
  assumes "countdown s \<noteq> None \<or> recorderState s \<noteq> idle"
  shows "beginCountdown s = s"
  using assms by (auto simp: beginCountdown_def)

text \<open>
  The theorem during a countdown (after \<^verbatim>\<open>beginCountdown\<close> on the opened page, the
  countdown shows 3) and during a recording.
\<close>

theorem beginCountdown_noop_witness:
  "countdown (beginCountdown initial) = Some 3
    \<and> beginCountdown (beginCountdown initial) = beginCountdown initial
    \<and> recorderState (run webm_platform first_recording initial) = recording
    \<and> beginCountdown (run webm_platform first_recording initial)
       = run webm_platform first_recording initial"
proof -
  have h1: "countdown (beginCountdown initial) = Some 3"
    by (simp add: beginCountdown_def setInterval_def initial_def COUNTDOWN_SECONDS_def)
  then have "countdown (beginCountdown initial) \<noteq> None \<or> recorderState (beginCountdown initial) \<noteq> idle"
    by simp
  from beginCountdown_noop[OF this]
  have c1: "beginCountdown (beginCountdown initial) = beginCountdown initial" .
  have h2: "recorderState (run webm_platform first_recording initial) = recording"
    by (simp add: handler_defs sample_defs)
  then have "countdown (run webm_platform first_recording initial) \<noteq> None
      \<or> recorderState (run webm_platform first_recording initial) \<noteq> idle"
    by simp
  from beginCountdown_noop[OF this]
  have c2: "beginCountdown (run webm_platform first_recording initial)
      = run webm_platform first_recording initial" .
  from h1 c1 h2 c2 show ?thesis by (intro conjI)
qed

section \<open>A screen share whose microphone fails\<close>

text \<open>
  C6. \<^verbatim>\<open>prepareStudio\<close> for the screen with the microphone requested, when the screen
  request succeeds and the microphone request fails: the studio is ready, the stream
  in \<^verbatim>\<open>streamRef\<close> is the screen stream as \<^verbatim>\<open>getDisplayMedia\<close> delivered it (no
  audio track was added), the failure is written to the console, and no error message
  is set. The part of \<^verbatim>\<open>prepareStudio\<close> that runs after the requests have settled does
  not write the error message at all.
\<close>

theorem prepareStudio_microphone_failure:
  assumes "getDisplayMedia d = Inr screenStream"
    and "getUserMedia_microphone d = Inl micErr"
  shows "isStudioReady (prepareStudio d screen True s)
    \<and> streamRef (prepareStudio d screen True s) = Some screenStream
    \<and> error (prepareStudio d screen True s) = None
    \<and> console (prepareStudio d screen True s) = console s @ [micErr]
    \<and> isStudioReady (prepareStudio_settle d screen True s)
    \<and> streamRef (prepareStudio_settle d screen True s) = Some screenStream
    \<and> error (prepareStudio_settle d screen True s) = error s"
  using assms
  by (simp add: prepareStudio_def prepareStudio_settle_def prepareStudio_begin_def
      acquire_def teardownStream_def attachStreamToVideo_def Let_def split: option.splits)

text \<open>
  The theorem for a screen share with one video track whose microphone request is
  denied, on the opened page.
\<close>

theorem prepareStudio_microphone_failure_witness:
  "getDisplayMedia screen_devices = Inr [Track VideoTrack 7]
    \<and> getUserMedia_microphone screen_devices = Inl (ErrorObject (str ''Permission denied''))
    \<and> isStudioReady (prepareStudio screen_devices screen True initial)
    \<and> streamRef (prepareStudio screen_devices screen True initial) = Some [Track VideoTrack 7]
    \<and> error (prepareStudio screen_devices screen True initial) = None"
proof -
  have h1: "getDisplayMedia screen_devices = Inr [Track VideoTrack 7]"
    by (simp add: screen_devices_def)
  have h2: "getUserMedia_microphone screen_devices = Inl (ErrorObject (str ''Permission denied''))"
    by (simp add: screen_devices_def)
  note th = prepareStudio_microphone_failure[OF h1 h2, of initial]
  from th have c1: "isStudioReady (prepareStudio screen_devices screen True initial)"
    by (rule conjunct1)
  from th have c2: "streamRef (prepareStudio screen_devices screen True initial)
      = Some [Track VideoTrack 7]"
    by blast
  from th have c3: "error (prepareStudio screen_devices screen True initial) = None"
    by blast
  from h1 h2 c1 c2 c3 show ?thesis by (intro conjI)
qed

section \<open>The error message across a successful start\<close>

text \<open>
  C3 at two inputs. \<^verbatim>\<open>prepareStudio\<close> clears the error message when it is called;
  \<^verbatim>\<open>startRecording\<close> does not. In the first run the preview fails to play after the
  studio was enabled, in the second the source is changed during a countdown, so that
  the countdown ends before the new stream arrived. In both a later countdown ends in
  a successful \<^verbatim>\<open>startRecording\<close>, and the earlier message is still set while
  \<^verbatim>\<open>recorderState\<close> is \<^verbatim>\<open>recording\<close>.
\<close>

theorem startRecording_keeps_stale_error:
  "error (run webm_platform
        [EnableStudio, AcquisitionSettles camera_devices camera True, PlayRejected,
         BeginCountdown, IntervalFires 0, IntervalFires 0] initial)
      = Some MSG_PREVIEW_AUTOPLAY
    \<and> error (run webm_platform
        [EnableStudio, AcquisitionSettles camera_devices camera True, PlayRejected,
         BeginCountdown, IntervalFires 0, IntervalFires 0, IntervalFires 0] initial)
      = Some MSG_PREVIEW_AUTOPLAY
    \<and> recorderState (run webm_platform
        [EnableStudio, AcquisitionSettles camera_devices camera True, PlayRejected,
         BeginCountdown, IntervalFires 0, IntervalFires 0, IntervalFires 0] initial)
      = recording
    \<and> error (run webm_platform
        [EnableStudio, AcquisitionSettles camera_devices camera True, BeginCountdown,
         SelectSource camera, IntervalFires 0, IntervalFires 0, IntervalFires 0,
         AcquisitionSettles camera_devices camera True,
         BeginCountdown, IntervalFires 1, IntervalFires 1, IntervalFires 1] initial)
      = Some MSG_NO_ACTIVE_SOURCE
    \<and> recorderState (run webm_platform
        [EnableStudio, AcquisitionSettles camera_devices camera True, BeginCountdown,
         SelectSource camera, IntervalFires 0, IntervalFires 0, IntervalFires 0,
         AcquisitionSettles camera_devices camera True,
         BeginCountdown, IntervalFires 1, IntervalFires 1, IntervalFires 1] initial)
      = recording"
  by (simp add: handler_defs sample_defs handleSelectSource_def)

section \<open>The elapsed counter across pause and resume\<close>

text \<open>
  C4 at one input. A recording runs for two seconds, is paused and is resumed. The
  counter is 2 while recording and stays 2 while paused. \<^verbatim>\<open>resumeRecording\<close> calls
  \<^verbatim>\<open>startTimer\<close>, which calls \<^verbatim>\<open>resetTimer\<close>: after the resume the counter is 0,
  in the same recording.
\<close>

theorem resumeRecording_resets_elapsedSeconds:
  "recorderState (run webm_platform
        (first_recording @ [IntervalFires 1, IntervalFires 1]) initial) = recording
    \<and> elapsedSeconds (run webm_platform
        (first_recording @ [IntervalFires 1, IntervalFires 1]) initial) = 2
    \<and> recorderState (run webm_platform
        (first_recording @ [IntervalFires 1, IntervalFires 1, PauseRecording]) initial)
       = paused
    \<and> elapsedSeconds (run webm_platform
        (first_recording @ [IntervalFires 1, IntervalFires 1, PauseRecording]) initial) = 2
    \<and> recorderState (run webm_platform
        (first_recording @ [IntervalFires 1, IntervalFires 1, PauseRecording,
          ResumeRecording]) initial) = recording
    \<and> recorderRef (run webm_platform
        (first_recording @ [IntervalFires 1, IntervalFires 1, PauseRecording,
          ResumeRecording]) initial) = Some 0
    \<and> elapsedSeconds (run webm_platform
        (first_recording @ [IntervalFires 1, IntervalFires 1, PauseRecording,
          ResumeRecording]) initial) = 0"
  by (simp add: handler_defs sample_defs)

section \<open>Stopping a recording\<close>

text \<open>
  In every state that the page reaches, the recorder that \<^verbatim>\<open>recorderRef\<close> holds was
  constructed: \<^verbatim>\<open>startRecording\<close> stores the recorder it has just constructed, and no
  handler removes a recorder.
\<close>

lemma attached_step: "attached s \<Longrightarrow> attached (step p e s)"
  by (cases e)
    (auto simp: attached_def handler_defs handleSelectSource_def
      handleToggleMicrophone_def downloadRecording_def effectCleanup_def Let_def
      split: option.splits sum.splits interval_callback.splits prod.splits if_splits)

lemma attached_run: "attached s \<Longrightarrow> attached (run p es s)"
  by (induction es arbitrary: s) (simp_all add: attached_step)

lemma attached_initial: "attached initial"
  by (simp add: attached_def initial_def)

text \<open>
  C8, as the code has it, for \<^verbatim>\<open>stopRecording\<close> called while \<^verbatim>\<open>recorderState\<close> is
  \<^verbatim>\<open>recording\<close> or \<^verbatim>\<open>paused\<close>. With no recorder in \<^verbatim>\<open>recorderRef\<close> it changes
  nothing. With recorder \<open>r\<close> in \<^verbatim>\<open>recorderRef\<close> it stops every track of the stream and
  empties \<^verbatim>\<open>streamRef\<close>, clears the studio flag and the countdown and drops the
  reference, in either of the two states, and it leaves \<^verbatim>\<open>recorderState\<close> and
  \<^verbatim>\<open>recordedUrl\<close> as they were. The recorder is told to stop, and when its \<^verbatim>\<open>onstop\<close>
  handler runs, \<^verbatim>\<open>recorderState\<close> becomes \<^verbatim>\<open>idle\<close> and \<^verbatim>\<open>recordedUrl\<close> the URL of the
  artifact built from the collected chunks. In every state that the page reaches from
  its opening, the recorder in \<^verbatim>\<open>recorderRef\<close> exists, so this applies to it.
\<close>

theorem stopRecording_releases_stream:
  assumes "recorderState s = recording \<or> recorderState s = paused"
  shows "(recorderRef s = None \<longrightarrow> stopRecording s = s)
    \<and> (recorderRef s = Some r \<longrightarrow>
          streamRef (stopRecording s) = None
        \<and> stoppedTracks (stopRecording s)
           = stoppedTracks s @ (case streamRef s of None \<Rightarrow> [] | Some stream \<Rightarrow> stream)
        \<and> \<not> isStudioReady (stopRecording s)
        \<and> countdown (stopRecording s) = None
        \<and> recorderRef (stopRecording s) = None
        \<and> recorderState (stopRecording s) = recorderState s
        \<and> recordedUrl (stopRecording s) = recordedUrl s
        \<and> objectURLs (stopRecording s) = objectURLs s)
    \<and> (recorderRef s = Some r \<and> recorders s r = Some m \<longrightarrow>
          recorders (stopRecording s) r = Some (m\<lparr> rec_state := rec_inactive \<rparr>)
        \<and> recorderState (onstop r (stopRecording s)) = idle
        \<and> recordedUrl (onstop r (stopRecording s)) = Some (nextObjectURL s)
        \<and> objectURLs (onstop r (stopRecording s)) (nextObjectURL s)
           = Some (new_Blob (chunks m) (mimeType m)))
    \<and> (s = run p es initial \<and> recorderRef s = Some r \<longrightarrow> (\<exists>m'. recorders s r = Some m'))"
proof -
  have noop: "recorderRef s = None \<longrightarrow> stopRecording s = s"
    by (simp add: stopRecording_def)
  have sync: "recorderRef s = Some r \<longrightarrow>
          streamRef (stopRecording s) = None
        \<and> stoppedTracks (stopRecording s)
           = stoppedTracks s @ (case streamRef s of None \<Rightarrow> [] | Some stream \<Rightarrow> stream)
        \<and> \<not> isStudioReady (stopRecording s)
        \<and> countdown (stopRecording s) = None
        \<and> recorderRef (stopRecording s) = None
        \<and> recorderState (stopRecording s) = recorderState s
        \<and> recordedUrl (stopRecording s) = recordedUrl s
        \<and> objectURLs (stopRecording s) = objectURLs s"
    using assms
    by (auto simp: stopRecording_def set_rec_state_def teardownStream_def Let_def
        split: option.splits)
  have fin: "recorderRef s = Some r \<and> recorders s r = Some m \<longrightarrow>
          recorders (stopRecording s) r = Some (m\<lparr> rec_state := rec_inactive \<rparr>)
        \<and> recorderState (onstop r (stopRecording s)) = idle
        \<and> recordedUrl (onstop r (stopRecording s)) = Some (nextObjectURL s)
        \<and> objectURLs (onstop r (stopRecording s)) (nextObjectURL s)
           = Some (new_Blob (chunks m) (mimeType m))"
    using assms
    by (auto simp: stopRecording_def set_rec_state_def teardownStream_def onstop_def
        createObjectURL_def resetTimer_def clearInterval_def Let_def split: option.splits)
  have reach: "s = run p es initial \<and> recorderRef s = Some r \<longrightarrow> (\<exists>m'. recorders s r = Some m')"
  proof (intro impI, elim conjE)
    assume s: "s = run p es initial" and r: "recorderRef s = Some r"
    from attached_run[OF attached_initial, of p es] s have "attached s" by simp
    with r show "\<exists>m'. recorders s r = Some m'" by (simp add: attached_def)
  qed
  from noop sync fin reach show ?thesis by (intro conjI)
qed

text \<open>
  The theorem for the stop of a recording in progress, with the \<^verbatim>\<open>onstop\<close> handler that
  follows it, for the stop of the same recording once paused, and for a second stop
  before \<^verbatim>\<open>onstop\<close> has run.
\<close>

theorem stopRecording_releases_stream_witness:
  "recorderState (run webm_platform first_recording initial) = recording
    \<and> recorderRef (run webm_platform first_recording initial) = Some 0
    \<and> recorders (run webm_platform first_recording initial) 0
       = Some \<lparr> rec_stream = [Track VideoTrack 0, Track AudioTrack 1],
                mimeType = str ''video/webm'', videoBitsPerSecond = 4000000,
                rec_state = rec_recording, chunks = [] \<rparr>
    \<and> streamRef (stopRecording (run webm_platform first_recording initial)) = None
    \<and> \<not> isStudioReady (stopRecording (run webm_platform first_recording initial))
    \<and> countdown (stopRecording (run webm_platform first_recording initial)) = None
    \<and> recorderState (stopRecording (run webm_platform first_recording initial)) = recording
    \<and> recordedUrl (stopRecording (run webm_platform first_recording initial)) = None
    \<and> recorderState (onstop 0 (stopRecording (run webm_platform first_recording initial)))
       = idle
    \<and> recordedUrl (onstop 0 (stopRecording (run webm_platform first_recording initial)))
       = Some 0
    \<and> objectURLs (onstop 0 (stopRecording (run webm_platform first_recording initial))) 0
       = Some \<lparr> blob_bytes = [], blob_type = str ''video/webm'' \<rparr>
    \<and> recorderState (run webm_platform (first_recording @ [PauseRecording]) initial) = paused
    \<and> recorderRef (run webm_platform (first_recording @ [PauseRecording]) initial) = Some 0
    \<and> streamRef (stopRecording (run webm_platform (first_recording @ [PauseRecording]) initial))
       = None
    \<and> \<not> isStudioReady
        (stopRecording (run webm_platform (first_recording @ [PauseRecording]) initial))
    \<and> recorderState (run webm_platform (first_recording @ [StopRecording]) initial) = recording
    \<and> recorderRef (run webm_platform (first_recording @ [StopRecording]) initial) = None
    \<and> stopRecording (run webm_platform (first_recording @ [StopRecording]) initial)
       = run webm_platform (first_recording @ [StopRecording]) initial"
proof -
  let ?s = "run webm_platform first_recording initial"
  let ?s' = "run webm_platform (first_recording @ [PauseRecording]) initial"
  let ?s'' = "run webm_platform (first_recording @ [StopRecording]) initial"
  let ?m = "\<lparr> rec_stream = [Track VideoTrack 0, Track AudioTrack 1],
                mimeType = str ''video/webm'', videoBitsPerSecond = 4000000,
                rec_state = rec_recording, chunks = [] \<rparr>"
  have h1: "recorderState ?s = recording" by (simp add: handler_defs sample_defs)
  have h2: "recorderRef ?s = Some 0" by (simp add: handler_defs sample_defs)
  have h3: "recorders ?s 0 = Some ?m" by (simp add: handler_defs sample_defs)
  have u: "recordedUrl ?s = None" by (simp add: handler_defs sample_defs)
  have n: "nextObjectURL ?s = 0" by (simp add: handler_defs sample_defs)
  have b: "new_Blob (chunks ?m) (mimeType ?m) = \<lparr> blob_bytes = [], blob_type = str ''video/webm'' \<rparr>"
    by (simp add: new_Blob_def)
  from h1 have h1': "recorderState ?s = recording \<or> recorderState ?s = paused" by simp
  note th = stopRecording_releases_stream[OF h1', of 0 ?m]
  from th h2 have c1: "streamRef (stopRecording ?s) = None" by blast
  from th h2 have c2: "\<not> isStudioReady (stopRecording ?s)" by blast
  from th h2 have c3: "countdown (stopRecording ?s) = None" by blast
  from th h2 have "recorderState (stopRecording ?s) = recorderState ?s" by blast
  then have c4: "recorderState (stopRecording ?s) = recording" unfolding h1 .
  from th h2 have "recordedUrl (stopRecording ?s) = recordedUrl ?s" by blast
  then have c5: "recordedUrl (stopRecording ?s) = None" unfolding u .
  from th h2 h3 have c6: "recorderState (onstop 0 (stopRecording ?s)) = idle" by blast
  from th h2 h3 have "recordedUrl (onstop 0 (stopRecording ?s)) = Some (nextObjectURL ?s)"
    by blast
  then have c7: "recordedUrl (onstop 0 (stopRecording ?s)) = Some 0" unfolding n .
  from th h2 h3 have "objectURLs (onstop 0 (stopRecording ?s)) (nextObjectURL ?s)
      = Some (new_Blob (chunks ?m) (mimeType ?m))"
    by blast
  then have c8: "objectURLs (onstop 0 (stopRecording ?s)) 0
      = Some \<lparr> blob_bytes = [], blob_type = str ''video/webm'' \<rparr>"
    unfolding n b .
  have p1: "recorderState ?s' = paused" by (simp add: handler_defs sample_defs)
  have p2: "recorderRef ?s' = Some 0" by (simp add: handler_defs sample_defs)
  from p1 have p1': "recorderState ?s' = recording \<or> recorderState ?s' = paused" by simp
  note th' = stopRecording_releases_stream[OF p1', of 0]
  from th' p2 have d1: "streamRef (stopRecording ?s') = None" by blast
  from th' p2 have d2: "\<not> isStudioReady (stopRecording ?s')" by blast
  have q1: "recorderState ?s'' = recording" by (simp add: handler_defs sample_defs)
  have q2: "recorderRef ?s'' = None" by (simp add: handler_defs sample_defs)
  from q1 have q1': "recorderState ?s'' = recording \<or> recorderState ?s'' = paused" by simp
  from stopRecording_releases_stream[OF q1'] q2
  have e1: "stopRecording ?s'' = ?s''" by blast
  from h1 h2 h3 c1 c2 c3 c4 c5 c6 c7 c8 p1 p2 d1 d2 q1 q2 e1 show ?thesis
    by (intro conjI)
qed

text \<open>
  C8 as the specification states it fails. A recording is stopped and the studio is
  enabled again before the \<^verbatim>\<open>onstop\<close> handler has run: \<^verbatim>\<open>recorderState\<close> is still
  \<^verbatim>\<open>recording\<close> and \<^verbatim>\<open>recorderRef\<close> is null. \<^verbatim>\<open>stopRecording\<close> then does nothing:
  the new stream stays in \<^verbatim>\<open>streamRef\<close> and the studio stays ready.
\<close>

theorem stopRecording_without_recorder:
  "recorderState (run webm_platform
        (first_recording @ [StopRecording, EnableStudio,
          AcquisitionSettles camera_devices camera True]) initial) = recording
    \<and> recorderRef (run webm_platform
        (first_recording @ [StopRecording, EnableStudio,
          AcquisitionSettles camera_devices camera True]) initial) = None
    \<and> streamRef (stopRecording (run webm_platform
        (first_recording @ [StopRecording, EnableStudio,
          AcquisitionSettles camera_devices camera True]) initial))
       = Some [Track VideoTrack 0, Track AudioTrack 1]
    \<and> isStudioReady (stopRecording (run webm_platform
        (first_recording @ [StopRecording, EnableStudio,
          AcquisitionSettles camera_devices camera True]) initial))"
  by (simp add: handler_defs sample_defs)

section \<open>Fragments and the artifact\<close>

lemma emitted_Cons: "emitted r (e # es) = emitted r [e] @ emitted r es"
  by (cases e) auto

lemma collecting_step:
  "collecting r cs s \<Longrightarrow> collecting r (cs @ filter nonempty (emitted r [e])) (step p e s)"
  by (cases e)
    (auto simp: collecting_def handler_defs handleSelectSource_def
      handleToggleMicrophone_def downloadRecording_def effectCleanup_def Let_def
      nonempty_def
      split: option.splits sum.splits interval_callback.splits prod.splits if_splits)

lemma collecting_run:
  "collecting r cs s \<Longrightarrow> collecting r (cs @ filter nonempty (emitted r es)) (run p es s)"
proof (induction es arbitrary: s cs)
  case Nil
  then show ?case by simp
next
  case (Cons e es)
  from Cons.IH[OF collecting_step[OF Cons.prems, of e p]]
  show ?case by (subst emitted_Cons) simp
qed

lemma collecting_start:
  assumes "streamRef s = Some stream"
    and "find (isTypeSupported p) supportedTypes = Some mime"
    and "constructor_throws p = None" and "start_throws p = None"
  shows "collecting (nextRecorder s) [] (startRecording p s)
    \<and> recorderRef (startRecording p s) = Some (nextRecorder s)
    \<and> recorderState (startRecording p s) = recording"
  using assms
  by (simp add: collecting_def startRecording_def createRecorder_def set_rec_state_def
      startTimer_def resetTimer_def setInterval_def clearInterval_def revokeObjectURL_def
      Let_def split: option.splits)

lemma concat_nonempty:
  "concat (map blob_bytes (filter nonempty ds)) = concat (map blob_bytes ds)"
  by (induction ds) (auto simp: nonempty_def)

lemma collecting_onstop:
  assumes "collecting r cs s"
  shows "recordedUrl (onstop r s) = Some (nextObjectURL s)
    \<and> (case objectURLs (onstop r s) (nextObjectURL s) of
          None \<Rightarrow> False
        | Some blob \<Rightarrow> blob_bytes blob = concat (map blob_bytes cs))"
  using assms
  by (auto simp: collecting_def onstop_def createObjectURL_def resetTimer_def
      clearInterval_def new_Blob_def Let_def split: option.splits)

text \<open>
  C5. A recording is started successfully on recorder \<open>r\<close>; any sequence \<open>es\<close> of
  events follows, among them the fragments that the recorder emits. Then the
  \<^verbatim>\<open>chunks\<close> array of the recorder holds exactly the non-empty fragments emitted to
  \<open>r\<close>, in the order of their arrival, and when \<^verbatim>\<open>onstop\<close> runs, \<^verbatim>\<open>recordedUrl\<close> is
  the URL of a blob whose bytes are the concatenation of the emitted fragments in
  that order.
\<close>

theorem artifact_is_concatenation:
  assumes "streamRef s = Some stream"
    and "find (isTypeSupported p) supportedTypes = Some mime"
    and "constructor_throws p = None" and "start_throws p = None"
  shows "let r = nextRecorder s; s' = run p es (startRecording p s)
     in recorderRef (startRecording p s) = Some r
      \<and> recorderState (startRecording p s) = recording
      \<and> collecting r [] (startRecording p s)
      \<and> collecting r (filter nonempty (emitted r es)) s'
      \<and> recordedUrl (onstop r s') = Some (nextObjectURL s')
      \<and> (case objectURLs (onstop r s') (nextObjectURL s') of
            None \<Rightarrow> False
          | Some blob \<Rightarrow> blob_bytes blob = concat (map blob_bytes (emitted r es)))"
proof -
  let ?r = "nextRecorder s"
  let ?s' = "run p es (startRecording p s)"
  note st = collecting_start[OF assms]
  from st have c0: "collecting ?r [] (startRecording p s)" by (rule conjunct1)
  from collecting_run[OF c0, of es p]
  have c1: "collecting ?r (filter nonempty (emitted ?r es)) ?s'" by simp
  from collecting_onstop[OF c1]
  have c2: "recordedUrl (onstop ?r ?s') = Some (nextObjectURL ?s')
    \<and> (case objectURLs (onstop ?r ?s') (nextObjectURL ?s') of
          None \<Rightarrow> False
        | Some blob \<Rightarrow> blob_bytes blob = concat (map blob_bytes (emitted ?r es)))"
    unfolding concat_nonempty .
  from st c1 c2 show ?thesis by (simp add: Let_def)
qed

text \<open>
  The theorem for a recording on the enabled studio during which the recorder emits
  the fragments \<open>[1, 2]\<close>, an empty one, \<open>[3]\<close> and, after the stop, \<open>[4, 5]\<close>: the
  artifact holds the bytes 1 to 5 in this order.
\<close>

theorem artifact_is_concatenation_witness:
  "streamRef (run webm_platform
        [EnableStudio, AcquisitionSettles camera_devices camera True] initial)
      = Some [Track VideoTrack 0, Track AudioTrack 1]
    \<and> find (isTypeSupported webm_platform) supportedTypes = Some (str ''video/webm'')
    \<and> constructor_throws webm_platform = None
    \<and> start_throws webm_platform = None
    \<and> (case objectURLs
          (onstop 0 (run webm_platform
            [DataAvailable 0 \<lparr> blob_bytes = [1, 2], blob_type = str ''video/webm'' \<rparr>,
             IntervalFires 0,
             DataAvailable 0 \<lparr> blob_bytes = [], blob_type = str ''video/webm'' \<rparr>,
             DataAvailable 0 \<lparr> blob_bytes = [3], blob_type = str ''video/webm'' \<rparr>,
             StopRecording,
             DataAvailable 0 \<lparr> blob_bytes = [4, 5], blob_type = str ''video/webm'' \<rparr>]
            (startRecording webm_platform (run webm_platform
              [EnableStudio, AcquisitionSettles camera_devices camera True] initial)))) 0 of
          None \<Rightarrow> False
        | Some blob \<Rightarrow> blob_bytes blob = [1, 2, 3, 4, 5])"
proof -
  let ?s = "run webm_platform
    [EnableStudio, AcquisitionSettles camera_devices camera True] initial"
  let ?es = "[DataAvailable 0 \<lparr> blob_bytes = [1, 2], blob_type = str ''video/webm'' \<rparr>,
             IntervalFires 0,
             DataAvailable 0 \<lparr> blob_bytes = [], blob_type = str ''video/webm'' \<rparr>,
             DataAvailable 0 \<lparr> blob_bytes = [3], blob_type = str ''video/webm'' \<rparr>,
             StopRecording,
             DataAvailable 0 \<lparr> blob_bytes = [4, 5], blob_type = str ''video/webm'' \<rparr>]"
  have h1: "streamRef ?s = Some [Track VideoTrack 0, Track AudioTrack 1]"
    by (simp add: handler_defs sample_defs)
  have h2: "find (isTypeSupported webm_platform) supportedTypes = Some (str ''video/webm'')"
    by (simp add: sample_defs)
  have h3: "constructor_throws webm_platform = None" by (simp add: webm_platform_def)
  have h4: "start_throws webm_platform = None" by (simp add: webm_platform_def)
  have r: "nextRecorder ?s = 0" by (simp add: handler_defs sample_defs)
  have u: "nextObjectURL (run webm_platform ?es (startRecording webm_platform ?s)) = 0"
    by (simp add: handler_defs sample_defs)
  have e: "concat (map blob_bytes (emitted 0 ?es)) = [1, 2, 3, 4, 5]"
    by simp
  note th = artifact_is_concatenation[OF h1 h2 h3 h4, of ?es, unfolded Let_def r u e]
  from th have c: "case objectURLs (onstop 0 (run webm_platform ?es (startRecording webm_platform ?s))) 0 of
          None \<Rightarrow> False
        | Some blob \<Rightarrow> blob_bytes blob = [1, 2, 3, 4, 5]"
    by blast
  from h1 h2 h3 h4 c show ?thesis by (intro conjI)
qed

section \<open>A countdown runs to its end\<close>

lemma untouched_trans: "untouched a b \<Longrightarrow> untouched b c \<Longrightarrow> untouched a c"
  by (simp add: untouched_def)

lemma teardownStream_untouched: "untouched s (teardownStream s)"
  by (simp add: untouched_def teardownStream_def Let_def split: option.splits)

lemma prepareStudio_begin_untouched: "untouched s (prepareStudio_begin s)"
  by (simp add: untouched_def prepareStudio_begin_def teardownStream_def Let_def
      split: option.splits)

lemma acquire_console:
  "acquire d source mic s = Inr (stream, s1) \<Longrightarrow> \<exists>c. s1 = s\<lparr> console := c \<rparr>"
  by (auto simp: acquire_def split: if_splits sum.splits intro: exI[of _ "console s"])

lemma attachStreamToVideo_untouched: "untouched s (attachStreamToVideo stream s)"
  by (simp add: untouched_def attachStreamToVideo_def split: option.splits)

lemma prepareStudio_settle_untouched: "untouched s (prepareStudio_settle d source mic s)"
proof (cases "acquire d source mic s")
  case (Inl err)
  have "untouched s (s\<lparr> error := Some (acquisition_message source err) \<rparr>)"
    by (simp add: untouched_def)
  from untouched_trans[OF this teardownStream_untouched] Inl show ?thesis
    by (simp add: prepareStudio_settle_def)
next
  case (Inr res)
  obtain stream s1 where res: "res = (stream, s1)" by (cases res)
  with Inr acquire_console obtain c where s1: "s1 = s\<lparr> console := c \<rparr>" by blast
  have a: "untouched s (s\<lparr> console := c, streamRef := Some stream \<rparr>)"
    by (simp add: untouched_def)
  have "untouched s (attachStreamToVideo stream (s\<lparr> console := c, streamRef := Some stream \<rparr>))"
    by (rule untouched_trans[OF a attachStreamToVideo_untouched])
  then show ?thesis using Inr res s1 by (simp add: prepareStudio_settle_def untouched_def)
qed

lemma handleSelectSource_untouched: "untouched s (handleSelectSource source s)"
  using prepareStudio_begin_untouched[of "s\<lparr> captureSource := source \<rparr>"]
  by (simp add: untouched_def handleSelectSource_def Let_def)

lemma handleToggleMicrophone_untouched: "untouched s (handleToggleMicrophone v s)"
  using prepareStudio_begin_untouched[of "s\<lparr> includeMicrophone := v \<rparr>"]
  by (simp add: untouched_def handleToggleMicrophone_def Let_def)

lemma downloadRecording_untouched: "untouched s (downloadRecording s)"
  by (simp add: untouched_def downloadRecording_def split: option.splits)

lemma counting_down_guards:
  "counting_down t n s \<Longrightarrow>
    stopRecording s = s \<and> pauseRecording s = s \<and> resumeRecording s = s \<and> beginCountdown s = s"
  by (simp add: counting_down_def stopRecording_def pauseRecording_def resumeRecording_def
      beginCountdown_def split: option.splits)

lemma counting_down_step:
  assumes "counting_down t n s" and "exposed_operation e"
  shows "counting_down t n (step p e s) \<and> untouched s (step p e s)"
proof -
  have u: "untouched s (step p e s)"
    using assms(2) counting_down_guards[OF assms(1)]
    by (cases e)
      (simp_all add: handleEnableStudio_def prepareStudio_begin_untouched
        prepareStudio_settle_untouched handleSelectSource_untouched
        handleToggleMicrophone_untouched downloadRecording_untouched,
       simp_all add: untouched_def)
  with assms(1) show ?thesis by (simp add: counting_down_def untouched_def)
qed

lemma counting_down_run:
  "counting_down t n s \<Longrightarrow> list_all exposed_operation es \<Longrightarrow>
    counting_down t n (run p es s) \<and> untouched s (run p es s)"
proof (induction es arbitrary: s)
  case Nil
  then show ?case by (simp add: untouched_def)
next
  case (Cons e es)
  from Cons.prems have e: "exposed_operation e" and es: "list_all exposed_operation es"
    by simp_all
  note st = counting_down_step[OF Cons.prems(1) e, of p]
  from Cons.IH[OF conjunct1[OF st] es] st show ?case by (simp add: untouched_def)
qed

lemma counting_down_begin:
  "countdown s = None \<Longrightarrow> recorderState s = idle \<Longrightarrow>
    counting_down (nextInterval s) 3 (beginCountdown s) \<and> no_encoder_change s (beginCountdown s)"
  by (simp add: counting_down_def no_encoder_change_def beginCountdown_def setInterval_def
      COUNTDOWN_SECONDS_def)

lemma counting_down_tick:
  "counting_down t n s \<Longrightarrow> 1 < n \<Longrightarrow>
    counting_down t (n - 1) (intervalFires p t s) \<and> no_encoder_change s (intervalFires p t s)"
  by (simp add: counting_down_def no_encoder_change_def intervalFires_def Let_def)

lemma counting_down_last:
  "counting_down t n s \<Longrightarrow> n \<le> 1 \<Longrightarrow>
    intervalFires p t s = startRecording p ((clearInterval t s)\<lparr> countdown := None \<rparr>)"
  by (simp add: counting_down_def intervalFires_def)

lemma counting_down_phase:
  assumes "counting_down t n s" and "no_encoder_change s0 s"
    and "list_all exposed_operation es"
  shows "counting_down t n (run p es s) \<and> controls_inert (run p es s)
    \<and> no_encoder_change s0 (run p es s)"
proof -
  note r = counting_down_run[OF assms(1) assms(3), of p]
  from r have c: "counting_down t n (run p es s)" by (rule conjunct1)
  from counting_down_guards[OF c] have i: "controls_inert (run p es s)"
    by (simp add: controls_inert_def)
  from r assms(2) have "no_encoder_change s0 (run p es s)"
    by (simp add: untouched_def no_encoder_change_def)
  with c i show ?thesis by (intro conjI)
qed

lemma no_encoder_change_trans:
  "no_encoder_change a b \<Longrightarrow> no_encoder_change b c \<Longrightarrow> no_encoder_change a c"
  by (simp add: no_encoder_change_def)

text \<open>
  C10, as the code has it. \<^verbatim>\<open>beginCountdown\<close> passes its guard in \<open>s0\<close> and arms the
  interval \<open>t\<close>. Between its ticks any operations of the page run: \<open>ops1\<close> before the
  first tick, \<open>ops2\<close> before the second, \<open>ops3\<close> before the third. At every point the
  countdown is still in progress on \<open>t\<close> with 3, 2 and 1 remaining, \<^verbatim>\<open>recorderState\<close>
  is \<^verbatim>\<open>idle\<close>, stop, pause and resume leave the session as it is, and no recorder is
  constructed or attached: the recorder reference is the one of \<open>s0\<close>, null whenever
  it was null there. The third tick is the call of \<^verbatim>\<open>startRecording\<close>, on the session
  with the interval cleared and the countdown removed.
\<close>

theorem countdown_not_cancelled:
  assumes "countdown s0 = None" and "recorderState s0 = idle"
    and "list_all exposed_operation ops1" and "list_all exposed_operation ops2"
    and "list_all exposed_operation ops3"
  shows "let t = nextInterval s0;
             s1 = run p ops1 (beginCountdown s0);
             s2 = run p ops2 (intervalFires p t s1);
             s3 = run p ops3 (intervalFires p t s2)
         in counting_down t 3 s1 \<and> controls_inert s1 \<and> no_encoder_change s0 s1
          \<and> counting_down t 2 s2 \<and> controls_inert s2 \<and> no_encoder_change s0 s2
          \<and> counting_down t 1 s3 \<and> controls_inert s3 \<and> no_encoder_change s0 s3
          \<and> intervalFires p t s3
             = startRecording p ((clearInterval t s3)\<lparr> countdown := None \<rparr>)"
proof -
  let ?t = "nextInterval s0"
  let ?s1 = "run p ops1 (beginCountdown s0)"
  let ?s2 = "run p ops2 (intervalFires p ?t ?s1)"
  let ?s3 = "run p ops3 (intervalFires p ?t ?s2)"
  note b = counting_down_begin[OF assms(1,2)]
  note p1 = counting_down_phase[OF conjunct1[OF b] conjunct2[OF b] assms(3), of p]
  from p1 have c1: "counting_down ?t 3 ?s1" and n1: "no_encoder_change s0 ?s1" by blast+
  from counting_down_tick[OF c1, of p]
  have t1: "counting_down ?t 2 (intervalFires p ?t ?s1)"
    and m1: "no_encoder_change ?s1 (intervalFires p ?t ?s1)" by simp_all
  note p2 = counting_down_phase[OF t1 no_encoder_change_trans[OF n1 m1] assms(4), of p]
  from p2 have c2: "counting_down ?t 2 ?s2" and n2: "no_encoder_change s0 ?s2" by blast+
  from counting_down_tick[OF c2, of p]
  have t2: "counting_down ?t 1 (intervalFires p ?t ?s2)"
    and m2: "no_encoder_change ?s2 (intervalFires p ?t ?s2)" by simp_all
  note p3 = counting_down_phase[OF t2 no_encoder_change_trans[OF n2 m2] assms(5), of p]
  from p3 have c3: "counting_down ?t 1 ?s3" by blast
  from counting_down_last[OF c3, of p]
  have l: "intervalFires p ?t ?s3
      = startRecording p ((clearInterval ?t ?s3)\<lparr> countdown := None \<rparr>)" by simp
  from p1 p2 p3 l show ?thesis unfolding Let_def by blast
qed

text \<open>
  The theorem on the enabled studio, with stop and pause pressed before the first
  tick, resume, a second begin-countdown and a change of the title before the second,
  and an export and a change of the overlay setting before the third: no recorder is
  attached at any of these points, and the third tick starts the recording.
\<close>

theorem countdown_not_cancelled_witness:
  "countdown (run webm_platform
        [EnableStudio, AcquisitionSettles camera_devices camera True] initial) = None
    \<and> recorderState (run webm_platform
        [EnableStudio, AcquisitionSettles camera_devices camera True] initial) = idle
    \<and> list_all exposed_operation [StopRecording, PauseRecording]
    \<and> list_all exposed_operation [ResumeRecording, BeginCountdown, EditProjectTitle (str ''take 2'')]
    \<and> list_all exposed_operation [DownloadRecording, ToggleOverlay False]
    \<and> (let t = nextInterval (run webm_platform
                [EnableStudio, AcquisitionSettles camera_devices camera True] initial);
            s1 = run webm_platform [StopRecording, PauseRecording]
                   (beginCountdown (run webm_platform
                     [EnableStudio, AcquisitionSettles camera_devices camera True] initial));
            s2 = run webm_platform
                   [ResumeRecording, BeginCountdown, EditProjectTitle (str ''take 2'')]
                   (intervalFires webm_platform t s1);
            s3 = run webm_platform [DownloadRecording, ToggleOverlay False]
                   (intervalFires webm_platform t s2)
        in counting_down t 3 s1 \<and> controls_inert s1
          \<and> counting_down t 2 s2 \<and> controls_inert s2
          \<and> counting_down t 1 s3 \<and> controls_inert s3
          \<and> recorderRef s1 = None \<and> recorderRef s2 = None \<and> recorderRef s3 = None
          \<and> intervalFires webm_platform t s3
             = startRecording webm_platform ((clearInterval t s3)\<lparr> countdown := None \<rparr>)
          \<and> recorderState (intervalFires webm_platform t s3) = recording)"
proof -
  let ?s0 = "run webm_platform
    [EnableStudio, AcquisitionSettles camera_devices camera True] initial"
  let ?o1 = "[StopRecording, PauseRecording]"
  let ?o2 = "[ResumeRecording, BeginCountdown, EditProjectTitle (str ''take 2'')]"
  let ?o3 = "[DownloadRecording, ToggleOverlay False]"
  let ?t = "nextInterval ?s0"
  let ?s1 = "run webm_platform ?o1 (beginCountdown ?s0)"
  let ?s2 = "run webm_platform ?o2 (intervalFires webm_platform ?t ?s1)"
  let ?s3 = "run webm_platform ?o3 (intervalFires webm_platform ?t ?s2)"
  have h1: "countdown ?s0 = None" by (simp add: handler_defs sample_defs)
  have h2: "recorderState ?s0 = idle" by (simp add: handler_defs sample_defs)
  have h3: "list_all exposed_operation ?o1" by simp
  have h4: "list_all exposed_operation ?o2" by simp
  have h5: "list_all exposed_operation ?o3" by simp
  note th = countdown_not_cancelled[OF h1 h2 h3 h4 h5, of webm_platform, unfolded Let_def]
  have r: "recorderState (intervalFires webm_platform ?t ?s3) = recording"
    by (simp add: handler_defs sample_defs downloadRecording_def)
  have n: "recorderRef ?s0 = None" by (simp add: handler_defs sample_defs)
  from th have "recorderRef ?s1 = recorderRef ?s0 \<and> recorderRef ?s2 = recorderRef ?s0
      \<and> recorderRef ?s3 = recorderRef ?s0"
    unfolding no_encoder_change_def by blast
  with n have n': "recorderRef ?s1 = None \<and> recorderRef ?s2 = None \<and> recorderRef ?s3 = None"
    by simp
  from th r n' have "counting_down ?t 3 ?s1 \<and> controls_inert ?s1
          \<and> counting_down ?t 2 ?s2 \<and> controls_inert ?s2
          \<and> counting_down ?t 1 ?s3 \<and> controls_inert ?s3
          \<and> recorderRef ?s1 = None \<and> recorderRef ?s2 = None \<and> recorderRef ?s3 = None
          \<and> intervalFires webm_platform ?t ?s3
             = startRecording webm_platform ((clearInterval ?t ?s3)\<lparr> countdown := None \<rparr>)
          \<and> recorderState (intervalFires webm_platform ?t ?s3) = recording"
    by blast
  with h1 h2 h3 h4 h5 show ?thesis unfolding Let_def by blast
qed

text \<open>
  C10 as the specification states it fails in one clause: a recorder can exist during
  a countdown. The source is restarted while a recording is in progress, which stops
  every track of the recorded stream; the browser ends the recording and runs
  \<^verbatim>\<open>onstop\<close>, which sets \<^verbatim>\<open>recorderState\<close> to \<^verbatim>\<open>idle\<close> and leaves \<^verbatim>\<open>recorderRef\<close> as
  it is. In the countdown that is begun next, on interval 2, \<^verbatim>\<open>recorderRef\<close> still
  holds recorder 0. Stop, pause and resume are no-ops all the same, since their guards
  fail on \<^verbatim>\<open>recorderState\<close>.
\<close>

theorem countdown_with_recorder_attached:
  "counting_down 2 3 (run webm_platform
        (first_recording @ [EnableStudio, RecorderStopped 0, EffectCleanup None,
          AcquisitionSettles camera_devices camera True, BeginCountdown]) initial)
    \<and> recorderRef (run webm_platform
        (first_recording @ [EnableStudio, RecorderStopped 0, EffectCleanup None,
          AcquisitionSettles camera_devices camera True, BeginCountdown]) initial) = Some 0
    \<and> recorders (run webm_platform
        (first_recording @ [EnableStudio, RecorderStopped 0, EffectCleanup None,
          AcquisitionSettles camera_devices camera True, BeginCountdown]) initial) 0
       = Some \<lparr> rec_stream = [Track VideoTrack 0, Track AudioTrack 1],
                mimeType = str ''video/webm'', videoBitsPerSecond = 4000000,
                rec_state = rec_inactive, chunks = [] \<rparr>"
  by (simp add: handler_defs sample_defs effectCleanup_def counting_down_def)

end
